theory Spec2Isabelle
  imports Complex_Main
begin

section \<open>Errors and their transport status\<close>

text \<open>
  A Go \<open>error\<close> is an interface value. The handlers distinguish the two error types of
  package \<open>core\<close> by a type switch; every other dynamic type falls into the default
  branch. The model has one constructor per case of that switch, each carrying the
  message.
\<close>

type_synonym bytes = string

datatype error =
    InvalidArgument string
  | InternalError string
  | OtherError string

abbreviation StatusOK :: nat where "StatusOK \<equiv> 200"
abbreviation StatusBadRequest :: nat where "StatusBadRequest \<equiv> 400"
abbreviation StatusInternalServerError :: nat where "StatusInternalServerError \<equiv> 500"

fun httpStatusCode :: "error \<Rightarrow> nat" where
  "httpStatusCode (InvalidArgument _) = StatusBadRequest"
| "httpStatusCode (InternalError _) = StatusInternalServerError"
| "httpStatusCode _ = StatusInternalServerError"

section \<open>The request context\<close>

text \<open>
  Modelled from the spec: package \<open>cache\<close> is not among the sources. The spec's
  CacheEntry is the immutable pair of the metadata and the ordered data blocks; it is built
  by \<open>cache.NewCacheEntry(data, metadata)\<close> and read by the accessors \<open>Data()\<close>
  and \<open>Metadata()\<close>.
\<close>

datatype CacheEntry = NewCacheEntry (Data: "bytes list") (Metadata: bytes)

text \<open>
  Everything a handler does to the outside is recorded, in program order, as an event:
  calls to the connection maker, the fingerprint, the cache, the engine handle, the
  validators of package \<open>core\<close>, and the three ways a response is written
  (\<open>ctx.AbortWithError\<close>, \<open>ctx.Data\<close>, \<open>writeResponse\<close>).
\<close>

datatype event =
    Ev_MakeVdsConnection
  | Ev_hash
  | Ev_Cache_Get string
  | Ev_IsAuthorizedToRead
  | Ev_NewDSHandle bool
  | Ev_Close
  | Ev_Validate string
  | Ev_Engine string
  | Ev_Cache_Set string CacheEntry
  | Ev_AbortWithError nat error
  | Ev_Data nat string bytes
  | Ev_writeResponse bytes "bytes list"

datatype key_value = KString string | KBool bool

record Context =
  Query :: "(string \<times> string) list"
  Keys :: "(string \<times> key_value) list"
  Trace :: "event list"

definition emit :: "event \<Rightarrow> Context \<Rightarrow> Context" where
  "emit ev ctx = ctx\<lparr>Trace := Trace ctx @ [ev]\<rparr>"

definition emits :: "event list \<Rightarrow> Context \<Rightarrow> Context" where
  "emits evs ctx = ctx\<lparr>Trace := Trace ctx @ evs\<rparr>"

definition ctx_Set :: "string \<Rightarrow> key_value \<Rightarrow> Context \<Rightarrow> Context" where
  "ctx_Set k v ctx = ctx\<lparr>Keys := (k, v) # Keys ctx\<rparr>"

definition GetQuery :: "Context \<Rightarrow> string \<Rightarrow> string option" where
  "GetQuery ctx k = map_of (Query ctx) k"

text \<open>
  \<open>abortOnError\<close>: a nil error leaves the context untouched and returns false; any other
  error aborts the context with the mapped status and returns true.
\<close>

fun abortOnError :: "Context \<Rightarrow> error option \<Rightarrow> Context \<times> bool" where
  "abortOnError ctx None = (ctx, False)"
| "abortOnError ctx (Some err) = (emit (Ev_AbortWithError (httpStatusCode err) err) ctx, True)"

fun is_response :: "event \<Rightarrow> bool" where
  "is_response (Ev_AbortWithError _ _) = True"
| "is_response (Ev_Data _ _ _) = True"
| "is_response (Ev_writeResponse _ _) = True"
| "is_response _ = False"

definition responses :: "Context \<Rightarrow> event list" where
  "responses ctx = filter is_response (Trace ctx)"

section \<open>Collaborators outside the handlers\<close>

text \<open>
  The handlers call into package \<open>core\<close> (connections, the dataset handle and its
  queries, the token parsers), into package \<open>cache\<close> and into the request types'
  own methods (\<open>toString\<close>, \<open>hash\<close>, \<open>credentials\<close>). The handle queries, the
  connection's authorization check, the token parsers other than \<open>GetAxis\<close>, the
  digest behind \<open>hash\<close>, \<open>toString\<close>, the \<open>%f\<close> verb of \<open>fmt.Sprintf\<close>, the
  Unicode path of \<open>strings.ToLower\<close>, and the table of direction tokens of
  \<open>GetAxis\<close> with the text that lists them, are parameters of the model: a record with
  one field per function or table. A Go call
  returning \<open>(value, error)\<close> is a sum, \<open>Inl\<close> the error.
\<close>

text \<open>
  A \<open>float32\<close> is a number, an infinity or NaN. A number is given by the real it
  denotes (the two zeros are one number, which no comparison tells apart). The handlers
  only compare such values with the constants 0 and 250: a comparison with NaN is false
  whichever way it is asked.
\<close>

datatype float32 = Number real | PosInf | NegInf | NaN

fun float32_less :: "float32 \<Rightarrow> real \<Rightarrow> bool" where
  "float32_less (Number x) c = (x < c)"
| "float32_less NegInf c = True"
| "float32_less PosInf c = False"
| "float32_less NaN c = False"

fun float32_greater_eq :: "float32 \<Rightarrow> real \<Rightarrow> bool" where
  "float32_greater_eq (Number x) c = (x \<ge> c)"
| "float32_greater_eq PosInf c = True"
| "float32_greater_eq NegInf c = False"
| "float32_greater_eq NaN c = False"

text \<open>The value lies in the half-open interval from 0 to 250.\<close>

definition in_window :: "float32 \<Rightarrow> bool" where
  "in_window x = (case x of Number r \<Rightarrow> 0 \<le> r \<and> r < 250 | _ \<Rightarrow> False)"

datatype Bound = Bound string int int

datatype RegularSurface = RegularSurface (Values: "float32 list list")

datatype MetadataRequest = MetadataRequest string string

text \<open>
  The request structs are declared outside the handlers' file; their fields are the ones
  the handlers and the tests use. \<open>Lineno\<close> is a pointer in the source that request
  binding has checked to be present before any handler runs (the tests expect a field
  validation error otherwise), so it is an integer here. \<open>FillValue\<close> is a pointer the
  handlers pass on without reading it.
\<close>

datatype DataRequest =
    SliceRequest (Vds: string) (Sas: string) (Direction: string) (Lineno: int)
      (Bounds: "Bound list")
  | FenceRequest (Vds: string) (Sas: string) (CoordinateSystem: string)
      (Coordinates: "float32 list list") (Interpolation: string) (FillValue: "float32 option")
  | AttributeAlongSurfaceRequest (Vds: string) (Sas: string) (Surface: RegularSurface)
      (Above: float32) (Below: float32) (Stepsize: float32) (Attributes: "string list")
      (Interpolation: string)
  | AttributeBetweenSurfacesRequest (Vds: string) (Sas: string)
      (PrimarySurface: RegularSurface) (SecondarySurface: RegularSurface) (Stepsize: float32)
      (Attributes: "string list") (Interpolation: string)

record ('conn, 'h) env =
  IsAuthorizedToRead :: "'conn \<Rightarrow> bool"
  NewDSHandle :: "'conn \<Rightarrow> error + 'h"
  GetCoordinateSystem :: "string \<Rightarrow> error + int"
  GetInterpolationMethod :: "string \<Rightarrow> error + int"
  GetMetadata :: "'h \<Rightarrow> error + bytes"
  GetSliceMetadata :: "'h \<Rightarrow> int \<Rightarrow> int \<Rightarrow> Bound list \<Rightarrow> error + bytes"
  GetSlice :: "'h \<Rightarrow> int \<Rightarrow> int \<Rightarrow> Bound list \<Rightarrow> error + bytes"
  GetFenceMetadata :: "'h \<Rightarrow> float32 list list \<Rightarrow> error + bytes"
  GetFence ::
    "'h \<Rightarrow> int \<Rightarrow> float32 list list \<Rightarrow> int \<Rightarrow> float32 option \<Rightarrow> error + bytes"
  GetAttributeMetadata :: "'h \<Rightarrow> float32 list list \<Rightarrow> error + bytes"
  GetAttributesAlongSurface ::
    "'h \<Rightarrow> RegularSurface \<Rightarrow> float32 \<Rightarrow> float32 \<Rightarrow> float32 \<Rightarrow> string list \<Rightarrow> int
       \<Rightarrow> error + bytes list"
  GetAttributesBetweenSurfaces ::
    "'h \<Rightarrow> RegularSurface \<Rightarrow> RegularSurface \<Rightarrow> float32 \<Rightarrow> string list \<Rightarrow> int
       \<Rightarrow> error + bytes list"
  Sprintf_f :: "float32 \<Rightarrow> string"
  digest :: "DataRequest \<Rightarrow> error + string"
  toString :: "DataRequest \<Rightarrow> string"
  toString_Metadata :: "MetadataRequest \<Rightarrow> string"
  unicode_ToLower :: "string \<Rightarrow> string"
  Axes :: "(string \<times> int) list"
  AxisOptions :: string

section \<open>Requests and their fingerprint\<close>

text \<open>The same request with another SAS token: the only credential field.\<close>

fun with_Sas :: "string \<Rightarrow> DataRequest \<Rightarrow> DataRequest" where
  "with_Sas s (SliceRequest vds _ d l b) = SliceRequest vds s d l b"
| "with_Sas s (FenceRequest vds _ cs co i f) = FenceRequest vds s cs co i f"
| "with_Sas s (AttributeAlongSurfaceRequest vds _ su a b st ats i) =
     AttributeAlongSurfaceRequest vds s su a b st ats i"
| "with_Sas s (AttributeBetweenSurfacesRequest vds _ p se st ats i) =
     AttributeBetweenSurfacesRequest vds s p se st ats i"

text \<open>
  Modelled from the spec: \<open>credentials()\<close> of a data request is not in the handlers' file.
  The spec's data model gives every variant a dataset locator and a credential token,
  from which the connection is derived.
\<close>

definition credentials :: "DataRequest \<Rightarrow> string \<times> string" where
  "credentials request = (Vds request, Sas request)"

text \<open>
  Modelled from the spec: \<open>hash()\<close> of a data request is not in the handlers' file. The
  spec's Fingerprinter is a digest over the credential-stripped serialization of the
  request's result-affecting fields, failing with an InternalError on input that cannot be
  serialized. The digest of the stripped request is the parameter \<open>digest\<close>.
\<close>

definition hash :: "('conn, 'h) env \<Rightarrow> DataRequest \<Rightarrow> error + string" where
  "hash env request = digest env (with_Sas [] request)"

text \<open>
  Modelled from the spec: package \<open>cache\<close> is not among the sources. The spec's
  ComputeCache is a mapping from cache key to entry; \<open>Get\<close> returns the entry and whether
  the key was present, \<open>Set\<close> inserts or overwrites.
\<close>

type_synonym Cache = "string \<rightharpoonup> CacheEntry"

definition Cache_Get :: "Cache \<Rightarrow> string \<Rightarrow> CacheEntry \<times> bool" where
  "Cache_Get c k = (case c k of Some v \<Rightarrow> (v, True) | None \<Rightarrow> (NewCacheEntry [] [], False))"

definition Cache_Set :: "Cache \<Rightarrow> string \<Rightarrow> CacheEntry \<Rightarrow> Cache" where
  "Cache_Set c k v = c(k \<mapsto> v)"

record 'conn Endpoint =
  MakeVdsConnection :: "string \<Rightarrow> string \<Rightarrow> error + 'conn"
  Cache :: Cache

section \<open>Token parsing and window validation\<close>

text \<open>
  \<open>strings.ToLower\<close>. A string of ASCII bytes only is lower-cased byte by byte: a byte
  from \<open>A\<close> to \<open>Z\<close> is moved by the distance from \<open>A\<close> to \<open>a\<close>. Any other string is
  decoded and mapped rune by rune through the Unicode tables, which are not modelled: that
  path is the parameter \<open>unicode_ToLower\<close>.
\<close>

definition ToLower_char :: "char \<Rightarrow> char" where
  "ToLower_char c =
     (let n = (of_char c :: nat) in if 65 \<le> n \<and> n \<le> 90 then char_of (n + 32) else c)"

definition isASCII :: "string \<Rightarrow> bool" where
  "isASCII s = list_all (\<lambda>c. (of_char c :: nat) < 128) s"

definition ToLower :: "('conn, 'h) env \<Rightarrow> string \<Rightarrow> string" where
  "ToLower env s = (if isASCII s then map ToLower_char s else unicode_ToLower env s)"



text \<open>\<open>strings.Contains\<close>.\<close>

fun Contains :: "string \<Rightarrow> string \<Rightarrow> bool" where
  "Contains [] sub = (sub = [])"
| "Contains (c # s) sub = (take (length sub) (c # s) = sub \<or> Contains s sub)"

text \<open>
  Modelled from the spec: \<open>core.GetAxis\<close> is not among the sources. The spec maps a
  valid direction token to its axis and turns any other token into an InvalidArgument that
  lists the valid options; the tests expect that message to contain
  \<open>invalid direction '<token>', valid options are\<close>. Which tokens are valid, the axis of
  each, and the text that lists them after these words are the parameters \<open>Axes\<close> and
  \<open>AxisOptions\<close>.
\<close>

definition GetAxis :: "('conn, 'h) env \<Rightarrow> string \<Rightarrow> error + int" where
  "GetAxis env direction =
     (case map_of (Axes env) direction of
        Some axis \<Rightarrow> Inr axis
      | None \<Rightarrow>
          Inl (InvalidArgument (''invalid direction '' @ [CHR 0x27] @ direction
                 @ [CHR 0x27] @ '', valid options are'' @ AxisOptions env)))"

text \<open>
  \<open>validateVerticalWindow\<close>, with the comparisons of \<open>float32\<close> values as the source
  writes them.
\<close>

definition validateVerticalWindow ::
  "(float32 \<Rightarrow> string) \<Rightarrow> float32 \<Rightarrow> float32 \<Rightarrow> float32 \<Rightarrow> error option" where
  "validateVerticalWindow fmt_f above' below' stepSize =
     (if float32_less above' 0 \<or> float32_greater_eq above' 250 then
        Some (InvalidArgument
          ('''above' out of range! Must be within [0, 250], was '' @ fmt_f above'))
      else if float32_less below' 0 \<or> float32_greater_eq below' 250 then
        Some (InvalidArgument
          ('''below' out of range! Must be within [0, 250], was '' @ fmt_f below'))
      else if float32_less stepSize 0 then
        Some (InvalidArgument
          ('''stepsize' out of range! Must be bigger than 0, was '' @ fmt_f stepSize))
      else None)"

section \<open>Execution of the request variants\<close>

text \<open>
  \<open>execute\<close> returns the events of the calls it made, in order, and either the error or
  \<open>(data, metadata)\<close>.
\<close>

fun execute ::
  "('conn, 'h) env \<Rightarrow> DataRequest \<Rightarrow> 'h \<Rightarrow> event list \<times> (error + (bytes list \<times> bytes))" where
  "execute env (SliceRequest vds sas direction lineno bounds) handle =
     (case GetAxis env (ToLower env direction) of
        Inl err \<Rightarrow> ([Ev_Validate ''GetAxis''], Inl err)
      | Inr axis \<Rightarrow>
         (case GetSliceMetadata env handle lineno axis bounds of
            Inl err \<Rightarrow> ([Ev_Validate ''GetAxis'', Ev_Engine ''GetSliceMetadata''], Inl err)
          | Inr metadata \<Rightarrow>
             (case GetSlice env handle lineno axis bounds of
                Inl err \<Rightarrow>
                  ([Ev_Validate ''GetAxis'', Ev_Engine ''GetSliceMetadata'',
                    Ev_Engine ''GetSlice''], Inl err)
              | Inr res \<Rightarrow>
                  ([Ev_Validate ''GetAxis'', Ev_Engine ''GetSliceMetadata'',
                    Ev_Engine ''GetSlice''], Inr ([res], metadata)))))"
| "execute env (FenceRequest vds sas coordinateSystem coordinates interpolation fillValue)
      handle =
     (case GetCoordinateSystem env (ToLower env coordinateSystem) of
        Inl err \<Rightarrow> ([Ev_Validate ''GetCoordinateSystem''], Inl err)
      | Inr cs \<Rightarrow>
         (case GetInterpolationMethod env interpolation of
            Inl err \<Rightarrow>
              ([Ev_Validate ''GetCoordinateSystem'', Ev_Validate ''GetInterpolationMethod''],
               Inl err)
          | Inr im \<Rightarrow>
             (case GetFenceMetadata env handle coordinates of
                Inl err \<Rightarrow>
                  ([Ev_Validate ''GetCoordinateSystem'', Ev_Validate ''GetInterpolationMethod'',
                    Ev_Engine ''GetFenceMetadata''], Inl err)
              | Inr metadata \<Rightarrow>
                 (case GetFence env handle cs coordinates im fillValue of
                    Inl err \<Rightarrow>
                      ([Ev_Validate ''GetCoordinateSystem'',
                        Ev_Validate ''GetInterpolationMethod'',
                        Ev_Engine ''GetFenceMetadata'', Ev_Engine ''GetFence''], Inl err)
                  | Inr res \<Rightarrow>
                      ([Ev_Validate ''GetCoordinateSystem'',
                        Ev_Validate ''GetInterpolationMethod'',
                        Ev_Engine ''GetFenceMetadata'', Ev_Engine ''GetFence''],
                       Inr ([res], metadata))))))"
| "execute env (AttributeAlongSurfaceRequest vds sas surface above' below' stepsize attributes
      interpolation) handle =
     (case validateVerticalWindow (Sprintf_f env) above' below' stepsize of
        Some err \<Rightarrow> ([Ev_Validate ''validateVerticalWindow''], Inl err)
      | None \<Rightarrow>
         (case GetInterpolationMethod env interpolation of
            Inl err \<Rightarrow>
              ([Ev_Validate ''validateVerticalWindow'', Ev_Validate ''GetInterpolationMethod''],
               Inl err)
          | Inr im \<Rightarrow>
             (case GetAttributeMetadata env handle (Values surface) of
                Inl err \<Rightarrow>
                  ([Ev_Validate ''validateVerticalWindow'',
                    Ev_Validate ''GetInterpolationMethod'',
                    Ev_Engine ''GetAttributeMetadata''], Inl err)
              | Inr metadata \<Rightarrow>
                 (case GetAttributesAlongSurface env handle surface above' below' stepsize
                         attributes im of
                    Inl err \<Rightarrow>
                      ([Ev_Validate ''validateVerticalWindow'',
                        Ev_Validate ''GetInterpolationMethod'',
                        Ev_Engine ''GetAttributeMetadata'',
                        Ev_Engine ''GetAttributesAlongSurface''], Inl err)
                  | Inr data \<Rightarrow>
                      ([Ev_Validate ''validateVerticalWindow'',
                        Ev_Validate ''GetInterpolationMethod'',
                        Ev_Engine ''GetAttributeMetadata'',
                        Ev_Engine ''GetAttributesAlongSurface''], Inr (data, metadata))))))"
| "execute env (AttributeBetweenSurfacesRequest vds sas primary secondary stepsize attributes
      interpolation) handle =
     (case GetInterpolationMethod env interpolation of
        Inl err \<Rightarrow> ([Ev_Validate ''GetInterpolationMethod''], Inl err)
      | Inr im \<Rightarrow>
         (case GetAttributeMetadata env handle (Values primary) of
            Inl err \<Rightarrow>
              ([Ev_Validate ''GetInterpolationMethod'', Ev_Engine ''GetAttributeMetadata''],
               Inl err)
          | Inr metadata \<Rightarrow>
             (case GetAttributesBetweenSurfaces env handle primary secondary stepsize
                     attributes im of
                Inl err \<Rightarrow>
                  ([Ev_Validate ''GetInterpolationMethod'', Ev_Engine ''GetAttributeMetadata'',
                    Ev_Engine ''GetAttributesBetweenSurfaces''], Inl err)
              | Inr data \<Rightarrow>
                  ([Ev_Validate ''GetInterpolationMethod'', Ev_Engine ''GetAttributeMetadata'',
                    Ev_Engine ''GetAttributesBetweenSurfaces''], Inr (data, metadata)))))"

section \<open>The handlers\<close>

text \<open>
  \<open>prepareRequestLogging\<close> stores the request's string form under the key
  \<open>request\<close>; an error of \<open>toString\<close> is ignored by the source.
\<close>

definition prepareRequestLogging :: "('r \<Rightarrow> string) \<Rightarrow> Context \<Rightarrow> 'r \<Rightarrow> Context" where
  "prepareRequestLogging to_string ctx request =
     ctx_Set ''request'' (KString (to_string request)) ctx"

text \<open>
  The metadata handler. The deferred \<open>handle.Close()\<close> is registered once the handle is
  open and runs as the last effect of every later return.
\<close>

fun metadata ::
  "('conn, 'h) env \<Rightarrow> 'conn Endpoint \<Rightarrow> Context \<Rightarrow> MetadataRequest
     \<Rightarrow> 'conn Endpoint \<times> Context" where
  "metadata env e ctx (MetadataRequest vds sas) =
     (let ctx = prepareRequestLogging (toString_Metadata env) ctx (MetadataRequest vds sas);
          ctx = emit Ev_MakeVdsConnection ctx
      in case MakeVdsConnection e vds sas of
           Inl err \<Rightarrow> (e, fst (abortOnError ctx (Some err)))
         | Inr conn \<Rightarrow>
            (case NewDSHandle env conn of
               Inl err \<Rightarrow> (e, fst (abortOnError (emit (Ev_NewDSHandle False) ctx) (Some err)))
             | Inr handle \<Rightarrow>
                (let ctx = emit (Ev_NewDSHandle True) ctx;
                     ctx = emit (Ev_Engine ''GetMetadata'') ctx
                 in case GetMetadata env handle of
                      Inl err \<Rightarrow> (e, emit Ev_Close (fst (abortOnError ctx (Some err))))
                    | Inr buffer \<Rightarrow>
                        (e, emit Ev_Close
                              (emit (Ev_Data StatusOK ''application/json'' buffer) ctx)))))"

text \<open>
  The data handler. \<open>hit && conn.IsAuthorizedToRead()\<close> short-circuits: the connection is
  asked only on a hit. \<open>writeResponse\<close> is recorded with the metadata and the data
  blocks it is given.
\<close>

definition makeDataRequest ::
  "('conn, 'h) env \<Rightarrow> 'conn Endpoint \<Rightarrow> Context \<Rightarrow> DataRequest
     \<Rightarrow> 'conn Endpoint \<times> Context" where
  "makeDataRequest env e ctx request =
     (let ctx = prepareRequestLogging (toString env) ctx request;
          (vds, sas) = credentials request;
          ctx = emit Ev_MakeVdsConnection ctx
      in case MakeVdsConnection e vds sas of
           Inl err \<Rightarrow> (e, fst (abortOnError ctx (Some err)))
         | Inr conn \<Rightarrow>
            (let ctx = emit Ev_hash ctx
             in case hash env request of
                  Inl err \<Rightarrow> (e, fst (abortOnError ctx (Some err)))
                | Inr cacheKey \<Rightarrow>
                   (let (cacheEntry, hit) = Cache_Get (Cache e) cacheKey;
                        ctx = emit (Ev_Cache_Get cacheKey) ctx;
                        ctx = (if hit then emit Ev_IsAuthorizedToRead ctx else ctx)
                    in if hit \<and> IsAuthorizedToRead env conn then
                         (let ctx = ctx_Set ''cache-hit'' (KBool True) ctx
                          in (e, emit (Ev_writeResponse (Metadata cacheEntry) (Data cacheEntry))
                                   ctx))
                       else
                         (case NewDSHandle env conn of
                            Inl err \<Rightarrow>
                              (e, fst (abortOnError (emit (Ev_NewDSHandle False) ctx)
                                         (Some err)))
                          | Inr handle \<Rightarrow>
                             (let ctx = emit (Ev_NewDSHandle True) ctx;
                                  (evs, res) = execute env request handle;
                                  ctx = emits evs ctx
                              in case res of
                                   Inl err \<Rightarrow>
                                     (e, emit Ev_Close (fst (abortOnError ctx (Some err))))
                                 | Inr (data, metadata') \<Rightarrow>
                                    (let entry = NewCacheEntry data metadata';
                                         e = e\<lparr>Cache := Cache_Set (Cache e) cacheKey entry\<rparr>;
                                         ctx = emit (Ev_Cache_Set cacheKey entry) ctx;
                                         ctx = emit (Ev_writeResponse metadata' data) ctx
                                     in (e, emit Ev_Close ctx)))))))"

section \<open>Parsing a request\<close>

text \<open>
  The decoders are parameters: \<open>json.Unmarshal\<close> into the request type (its error
  message on failure), the struct validator of the binding package, \<open>ctx.ShouldBind\<close>
  (which picks its decoder from the request's content type) and the request's
  \<open>NormalizeConnection\<close>. The request is filled in place in the source; here it is
  returned.
\<close>

record 'v Normalizable =
  Unmarshal :: "string \<Rightarrow> string + 'v"
  ValidateStruct :: "'v \<Rightarrow> string option"
  NormalizeConnection :: "'v \<Rightarrow> error + 'v"
  ShouldBind :: "Context \<Rightarrow> string + 'v"

definition parseGetRequest :: "'v Normalizable \<Rightarrow> Context \<Rightarrow> error + 'v" where
  "parseGetRequest n ctx =
     (case GetQuery ctx ''query'' of
        None \<Rightarrow>
          Inl (InvalidArgument
                ''GET request to specified endpoint requires a 'query' parameter'')
      | Some query \<Rightarrow>
         (case Unmarshal n query of
            Inl msg \<Rightarrow>
              Inl (InvalidArgument
                    (''Please ensure that the supplied query is valid ''
                     @ ''and conforms to the expected swagger Request specification: ''
                     @ msg))
          | Inr v \<Rightarrow>
             (case ValidateStruct n v of
                Some msg \<Rightarrow> Inl (InvalidArgument msg)
              | None \<Rightarrow> NormalizeConnection n v)))"

definition parsePostRequest :: "'v Normalizable \<Rightarrow> Context \<Rightarrow> error + 'v" where
  "parsePostRequest n ctx =
     (case ShouldBind n ctx of
        Inl msg \<Rightarrow> Inl (InvalidArgument msg)
      | Inr v \<Rightarrow> NormalizeConnection n v)"

section \<open>The routed handlers\<close>

text \<open>
  Each routed handler declares a request of its own type, parses into it, aborts on a
  parse error and otherwise hands the request to the metadata or the data handler. The
  decoders of the handler's request type are the argument \<open>n\<close>.
\<close>

type_synonym ('conn, 'h) data_handler =
  "DataRequest Normalizable \<Rightarrow> ('conn, 'h) env \<Rightarrow> 'conn Endpoint \<Rightarrow> Context
     \<Rightarrow> 'conn Endpoint \<times> Context"

type_synonym ('conn, 'h) metadata_handler =
  "MetadataRequest Normalizable \<Rightarrow> ('conn, 'h) env \<Rightarrow> 'conn Endpoint \<Rightarrow> Context
     \<Rightarrow> 'conn Endpoint \<times> Context"

definition MetadataGet :: "('conn, 'h) metadata_handler" where
  "MetadataGet n env e ctx =
     (case parseGetRequest n ctx of
        Inl err \<Rightarrow> (e, fst (abortOnError ctx (Some err)))
      | Inr request \<Rightarrow> metadata env e ctx request)"

definition MetadataPost :: "('conn, 'h) metadata_handler" where
  "MetadataPost n env e ctx =
     (case parsePostRequest n ctx of
        Inl err \<Rightarrow> (e, fst (abortOnError ctx (Some err)))
      | Inr request \<Rightarrow> metadata env e ctx request)"

definition SliceGet :: "('conn, 'h) data_handler" where
  "SliceGet n env e ctx =
     (case parseGetRequest n ctx of
        Inl err \<Rightarrow> (e, fst (abortOnError ctx (Some err)))
      | Inr request \<Rightarrow> makeDataRequest env e ctx request)"

definition SlicePost :: "('conn, 'h) data_handler" where
  "SlicePost n env e ctx =
     (case parsePostRequest n ctx of
        Inl err \<Rightarrow> (e, fst (abortOnError ctx (Some err)))
      | Inr request \<Rightarrow> makeDataRequest env e ctx request)"

definition FenceGet :: "('conn, 'h) data_handler" where
  "FenceGet n env e ctx =
     (case parseGetRequest n ctx of
        Inl err \<Rightarrow> (e, fst (abortOnError ctx (Some err)))
      | Inr request \<Rightarrow> makeDataRequest env e ctx request)"

definition FencePost :: "('conn, 'h) data_handler" where
  "FencePost n env e ctx =
     (case parsePostRequest n ctx of
        Inl err \<Rightarrow> (e, fst (abortOnError ctx (Some err)))
      | Inr request \<Rightarrow> makeDataRequest env e ctx request)"

definition AttributesAlongSurfacePost :: "('conn, 'h) data_handler" where
  "AttributesAlongSurfacePost n env e ctx =
     (case parsePostRequest n ctx of
        Inl err \<Rightarrow> (e, fst (abortOnError ctx (Some err)))
      | Inr request \<Rightarrow> makeDataRequest env e ctx request)"

definition AttributesBetweenSurfacesPost :: "('conn, 'h) data_handler" where
  "AttributesBetweenSurfacesPost n env e ctx =
     (case parsePostRequest n ctx of
        Inl err \<Rightarrow> (e, fst (abortOnError ctx (Some err)))
      | Inr request \<Rightarrow> makeDataRequest env e ctx request)"

text \<open>Every routed handler that serves a request, with the parser it starts with.\<close>

definition data_handlers ::
  "((DataRequest Normalizable \<Rightarrow> Context \<Rightarrow> error + DataRequest)
      \<times> ('conn, 'h) data_handler) list" where
  "data_handlers =
     [(parseGetRequest, SliceGet), (parsePostRequest, SlicePost),
      (parseGetRequest, FenceGet), (parsePostRequest, FencePost),
      (parsePostRequest, AttributesAlongSurfacePost),
      (parsePostRequest, AttributesBetweenSurfacesPost)]"

definition metadata_handlers ::
  "((MetadataRequest Normalizable \<Rightarrow> Context \<Rightarrow> error + MetadataRequest)
      \<times> ('conn, 'h) metadata_handler) list" where
  "metadata_handlers = [(parseGetRequest, MetadataGet), (parsePostRequest, MetadataPost)]"

section \<open>Properties of event traces\<close>

text \<open>The events a handler added to the trace it was given.\<close>

definition new_events :: "Context \<Rightarrow> Context \<Rightarrow> event list" where
  "new_events ctx ctx' = drop (length (Trace ctx)) (Trace ctx')"

fun is_cache_event :: "event \<Rightarrow> bool" where
  "is_cache_event (Ev_Cache_Get _) = True"
| "is_cache_event (Ev_Cache_Set _ _) = True"
| "is_cache_event _ = False"

fun is_Cache_Set :: "event \<Rightarrow> bool" where
  "is_Cache_Set (Ev_Cache_Set _ _) = True"
| "is_Cache_Set _ = False"

fun is_Engine :: "event \<Rightarrow> bool" where
  "is_Engine (Ev_Engine _) = True"
| "is_Engine _ = False"

text \<open>
  The strict discipline: every validator has run before a handle is opened. The flag says
  whether a handle has been opened so far.
\<close>

fun validated_before_open :: "bool \<Rightarrow> event list \<Rightarrow> bool" where
  "validated_before_open opened [] = True"
| "validated_before_open opened (Ev_NewDSHandle ok # es) =
     validated_before_open (opened \<or> ok) es"
| "validated_before_open opened (Ev_Validate v # es) =
     (\<not> opened \<and> validated_before_open opened es)"
| "validated_before_open opened (ev # es) = validated_before_open opened es"

text \<open>
  The discipline the handlers keep. A trace is cut at its first attempt to open a handle
  into the events before it, whether a handle was returned, and the events after it.
\<close>

fun split_at_open :: "event list \<Rightarrow> (event list \<times> bool \<times> event list) option" where
  "split_at_open [] = None"
| "split_at_open (Ev_NewDSHandle ok # es) = Some ([], ok, es)"
| "split_at_open (ev # es) = map_option (\<lambda>(pre, ok, post). (ev # pre, ok, post)) (split_at_open es)"

fun is_Cache_Get :: "event \<Rightarrow> bool" where
  "is_Cache_Get (Ev_Cache_Get _) = True"
| "is_Cache_Get _ = False"

fun is_NewDSHandle :: "event \<Rightarrow> bool" where
  "is_NewDSHandle (Ev_NewDSHandle _) = True"
| "is_NewDSHandle _ = False"

fun is_open_or_close :: "event \<Rightarrow> bool" where
  "is_open_or_close (Ev_NewDSHandle _) = True"
| "is_open_or_close Ev_Close = True"
| "is_open_or_close _ = False"

text \<open>The events that need a handle, or open or close one.\<close>

fun is_scoped_event :: "event \<Rightarrow> bool" where
  "is_scoped_event (Ev_NewDSHandle _) = True"
| "is_scoped_event Ev_Close = True"
| "is_scoped_event (Ev_Validate _) = True"
| "is_scoped_event (Ev_Engine _) = True"
| "is_scoped_event _ = False"

text \<open>
  What precedes the opening of a handle. For a data request: the connection is made, the
  request fingerprinted and the cache consulted, followed on a cache hit by the
  authorization check, and nothing else. For a metadata request: the connection is made,
  and nothing else.
\<close>

definition data_prelude :: "event list \<Rightarrow> bool" where
  "data_prelude pre =
     (take 2 pre = [Ev_MakeVdsConnection, Ev_hash]
      \<and> map is_Cache_Get (take 1 (drop 2 pre)) = [True]
      \<and> (drop 3 pre = [] \<or> drop 3 pre = [Ev_IsAuthorizedToRead]))"

definition metadata_prelude :: "event list \<Rightarrow> bool" where
  "metadata_prelude pre = (pre = [Ev_MakeVdsConnection])"

text \<open>
  \<open>handle_scoped prelude tr\<close>: when the trace never tries to open a handle, it has no
  close, no validator of \<open>execute\<close> and no engine query. Otherwise the events before the
  first attempt are exactly the prelude. When that attempt returns a handle, the handle is
  closed by the last event of the trace and no other event opens or closes a handle; so
  the handle is opened once, closed once, and every validator and engine query lies
  between the two. When the attempt fails, nothing is closed and no validator or engine
  query follows.
\<close>

definition handle_scoped :: "(event list \<Rightarrow> bool) \<Rightarrow> event list \<Rightarrow> bool" where
  "handle_scoped prelude tr =
     (case split_at_open tr of
        None \<Rightarrow> filter is_scoped_event tr = []
      | Some (pre, ok, post) \<Rightarrow>
          prelude pre
          \<and> (if ok then post \<noteq> [] \<and> last post = Ev_Close
                      \<and> filter is_open_or_close (butlast post) = []
              else filter is_scoped_event post = []))"


fun is_exec_event :: "event \<Rightarrow> bool" where
  "is_exec_event (Ev_Validate _) = True"
| "is_exec_event (Ev_Engine _) = True"
| "is_exec_event _ = False"

fun is_handle_event :: "event \<Rightarrow> bool" where
  "is_handle_event (Ev_NewDSHandle _) = True"
| "is_handle_event (Ev_Close) = True"
| "is_handle_event (Ev_Engine _) = True"
| "is_handle_event _ = False"

text \<open>
  The context after the request has been logged and the events \<open>evs\<close> recorded, and
  the events up to and including the cache lookup.
\<close>

definition logged :: "('conn, 'h) env \<Rightarrow> Context \<Rightarrow> DataRequest \<Rightarrow> event list \<Rightarrow> Context" where
  "logged env ctx request evs =
     ctx\<lparr>Keys := (''request'', KString (toString env request)) # Keys ctx,
         Trace := Trace ctx @ evs\<rparr>"

definition lookup_events :: "'conn Endpoint \<Rightarrow> string \<Rightarrow> event list" where
  "lookup_events e cacheKey =
     [Ev_MakeVdsConnection, Ev_hash, Ev_Cache_Get cacheKey]
     @ (if Cache e cacheKey \<noteq> None then [Ev_IsAuthorizedToRead] else [])"

section \<open>The stages at which a data request can fail\<close>

datatype stage = ConnectionCreation | Fingerprinting | OpeningHandle | Execution

fun fails_at ::
  "('conn, 'h) env \<Rightarrow> 'conn Endpoint \<Rightarrow> DataRequest \<Rightarrow> stage \<Rightarrow> error \<Rightarrow> bool" where
  "fails_at env e request ConnectionCreation err =
     (MakeVdsConnection e (Vds request) (Sas request) = Inl err)"
| "fails_at env e request Fingerprinting err =
     (case MakeVdsConnection e (Vds request) (Sas request) of
        Inl _ \<Rightarrow> False
      | Inr conn \<Rightarrow> hash env request = Inl err)"
| "fails_at env e request OpeningHandle err =
     (case MakeVdsConnection e (Vds request) (Sas request) of
        Inl _ \<Rightarrow> False
      | Inr conn \<Rightarrow>
         (case hash env request of
            Inl _ \<Rightarrow> False
          | Inr cacheKey \<Rightarrow>
              \<not> (Cache e cacheKey \<noteq> None \<and> IsAuthorizedToRead env conn)
              \<and> NewDSHandle env conn = Inl err))"
| "fails_at env e request Execution err =
     (case MakeVdsConnection e (Vds request) (Sas request) of
        Inl _ \<Rightarrow> False
      | Inr conn \<Rightarrow>
         (case hash env request of
            Inl _ \<Rightarrow> False
          | Inr cacheKey \<Rightarrow>
              \<not> (Cache e cacheKey \<noteq> None \<and> IsAuthorizedToRead env conn)
              \<and> (case NewDSHandle env conn of
                    Inl _ \<Rightarrow> False
                  | Inr handle \<Rightarrow> snd (execute env request handle) = Inl err)))"

section \<open>A concrete deployment\<close>

text \<open>
  A small instance on which the theorems are exercised: the connection is the SAS token,
  the token \<open>good\<close> is authorized and opens the dataset, any other token is refused by
  the engine; the digest is the dataset locator.
\<close>

definition example_env :: "(string, unit) env" where
  "example_env =
     \<lparr>IsAuthorizedToRead = (\<lambda>conn. conn = ''good''),
      NewDSHandle = (\<lambda>conn. if conn = ''good'' then Inr ()
                             else Inl (InternalError ''Could not open VDS'')),
      GetCoordinateSystem = (\<lambda>s. if s = ''ij'' then Inr 0
                                   else Inl (InvalidArgument ''coordinate system not recognized'')),
      GetInterpolationMethod = (\<lambda>s. Inr 0),
      GetMetadata = (\<lambda>h. Inr ''{}''),
      GetSliceMetadata = (\<lambda>h lineno axis bounds.
                            if 0 \<le> lineno \<and> lineno \<le> 2 then Inr ''meta''
                            else Inl (InternalError ''Invalid lineno'')),
      GetSlice = (\<lambda>h lineno axis bounds. Inr ''slice''),
      GetFenceMetadata = (\<lambda>h coordinates. Inr ''meta''),
      GetFence = (\<lambda>h cs coordinates im fill. Inr ''fence''),
      GetAttributeMetadata = (\<lambda>h values. Inr ''meta''),
      GetAttributesAlongSurface = (\<lambda>h s a b st attrs im. Inr (map (\<lambda>_. ''attr'') attrs)),
      GetAttributesBetweenSurfaces = (\<lambda>h p s st attrs im. Inr (map (\<lambda>_. ''attr'') attrs)),
      Sprintf_f = (\<lambda>x. if x = Number (- 1) then ''-1.000000''
                         else if x = NaN then ''NaN'' else ''?''),
      digest = (\<lambda>request. if Vds request = [] then Inl (InternalError ''hash'')
                            else Inr (Vds request)),
      toString = (\<lambda>request. Vds request),
      toString_Metadata = (\<lambda>request. ''metadata''),
      unicode_ToLower = (\<lambda>s. s),
      Axes = [(''i'', 0), (''inline'', 3), (''crossline'', 4)],
      AxisOptions = '': i, inline, crossline''\<rparr>"

definition example_endpoint :: "Cache \<Rightarrow> string Endpoint" where
  "example_endpoint c =
     \<lparr>MakeVdsConnection = (\<lambda>vds sas. if sas = [] then Inl (InvalidArgument ''no credentials'')
                                       else Inr sas),
      Cache = c\<rparr>"

definition example_ctx :: Context where
  "example_ctx = \<lparr>Query = [], Keys = [], Trace = []\<rparr>"


definition example_normalizable :: "unit Normalizable" where
  "example_normalizable =
     \<lparr>Unmarshal = (\<lambda>query. if query = ''{}'' then Inr () else Inl ''invalid character''),
      ValidateStruct = (\<lambda>v. None),
      NormalizeConnection = (\<lambda>v. Inr v),
      ShouldBind = (\<lambda>ctx. Inl ''EOF'')\<rparr>"

definition example_slice_binder :: "DataRequest Normalizable" where
  "example_slice_binder =
     \<lparr>Unmarshal = (\<lambda>query. if query = ''{}'' then Inr (SliceRequest ''vds'' ''good'' ''i'' 0 [])
                             else Inl ''invalid character''),
      ValidateStruct = (\<lambda>v. None),
      NormalizeConnection = (\<lambda>v. Inr v),
      ShouldBind = (\<lambda>ctx. Inr (SliceRequest ''vds'' ''good'' ''unknown'' 1 []))\<rparr>"

definition example_metadata_binder :: "MetadataRequest Normalizable" where
  "example_metadata_binder =
     \<lparr>Unmarshal = (\<lambda>query. Inl ''invalid character''),
      ValidateStruct = (\<lambda>v. None),
      NormalizeConnection = (\<lambda>v. Inr v),
      ShouldBind = (\<lambda>ctx. Inr (MetadataRequest ''vds'' ''revoked''))\<rparr>"

section \<open>Properties of the handlers\<close>

text \<open>
  Claim C2. Whatever error a handler aborts on, the status written is 400 exactly when
  the error is an InvalidArgument; an InternalError gives 500, an error of any other type
  gives 500, and the abort writes that status together with the error and nothing else.
\<close>

theorem C2_status_of_aborted_error:
  "(httpStatusCode err = StatusBadRequest \<longleftrightarrow> (\<exists>m. err = InvalidArgument m))
   \<and> httpStatusCode (InternalError m) = StatusInternalServerError
   \<and> httpStatusCode (OtherError m) = StatusInternalServerError
   \<and> httpStatusCode err \<in> {StatusBadRequest, StatusInternalServerError}
   \<and> abortOnError ctx (Some err)
       = (ctx\<lparr>Trace := Trace ctx @ [Ev_AbortWithError (httpStatusCode err) err]\<rparr>, True)
   \<and> abortOnError ctx None = (ctx, False)"
  by (cases err) (simp_all add: emit_def)

lemmas handler_defs =
  makeDataRequest_def prepareRequestLogging_def credentials_def emit_def emits_def
  ctx_Set_def Cache_Get_def Cache_Set_def Let_def

lemma run_connection_failed:
  assumes "MakeVdsConnection e (Vds request) (Sas request) = Inl err"
  shows "makeDataRequest env e ctx request =
           (e, logged env ctx request
                 [Ev_MakeVdsConnection, Ev_AbortWithError (httpStatusCode err) err])"
  using assms by (simp add: handler_defs logged_def)

lemma run_hash_failed:
  assumes "MakeVdsConnection e (Vds request) (Sas request) = Inr conn"
    and "hash env request = Inl err"
  shows "makeDataRequest env e ctx request =
           (e, logged env ctx request
                 [Ev_MakeVdsConnection, Ev_hash, Ev_AbortWithError (httpStatusCode err) err])"
  using assms by (simp add: handler_defs logged_def)

lemma run_cache_hit:
  assumes "MakeVdsConnection e (Vds request) (Sas request) = Inr conn"
    and "hash env request = Inr cacheKey"
    and "Cache e cacheKey = Some entry"
    and "IsAuthorizedToRead env conn"
  shows "makeDataRequest env e ctx request =
           (e, ctx\<lparr>Keys := (''cache-hit'', KBool True)
                        # (''request'', KString (toString env request)) # Keys ctx,
                    Trace := Trace ctx @
                      [Ev_MakeVdsConnection, Ev_hash, Ev_Cache_Get cacheKey,
                       Ev_IsAuthorizedToRead,
                       Ev_writeResponse (Metadata entry) (Data entry)]\<rparr>)"
  using assms by (simp add: handler_defs)

lemma run_open_failed:
  assumes "MakeVdsConnection e (Vds request) (Sas request) = Inr conn"
    and "hash env request = Inr cacheKey"
    and "\<not> (Cache e cacheKey \<noteq> None \<and> IsAuthorizedToRead env conn)"
    and "NewDSHandle env conn = Inl err"
  shows "makeDataRequest env e ctx request =
           (e, logged env ctx request
                 (lookup_events e cacheKey
                  @ [Ev_NewDSHandle False, Ev_AbortWithError (httpStatusCode err) err]))"
  using assms by (auto simp add: handler_defs logged_def lookup_events_def split: option.splits)

lemma run_execute_failed:
  assumes "MakeVdsConnection e (Vds request) (Sas request) = Inr conn"
    and "hash env request = Inr cacheKey"
    and "\<not> (Cache e cacheKey \<noteq> None \<and> IsAuthorizedToRead env conn)"
    and "NewDSHandle env conn = Inr handle"
    and "execute env request handle = (evs, Inl err)"
  shows "makeDataRequest env e ctx request =
           (e, logged env ctx request
                 (lookup_events e cacheKey @ [Ev_NewDSHandle True] @ evs
                  @ [Ev_AbortWithError (httpStatusCode err) err, Ev_Close]))"
  using assms by (auto simp add: handler_defs logged_def lookup_events_def split: option.splits)

lemma run_success:
  assumes "MakeVdsConnection e (Vds request) (Sas request) = Inr conn"
    and "hash env request = Inr cacheKey"
    and "\<not> (Cache e cacheKey \<noteq> None \<and> IsAuthorizedToRead env conn)"
    and "NewDSHandle env conn = Inr handle"
    and "execute env request handle = (evs, Inr (data, metadata'))"
  shows "makeDataRequest env e ctx request =
           (e\<lparr>Cache := (Cache e)(cacheKey \<mapsto> NewCacheEntry data metadata')\<rparr>,
            logged env ctx request
              (lookup_events e cacheKey @ [Ev_NewDSHandle True] @ evs
               @ [Ev_Cache_Set cacheKey (NewCacheEntry data metadata'),
                  Ev_writeResponse metadata' data, Ev_Close]))"
  using assms by (auto simp add: handler_defs logged_def lookup_events_def split: option.splits)


lemma new_events_logged [simp]: "new_events ctx (logged env ctx request evs) = evs"
  by (simp add: new_events_def logged_def)

lemma Keys_logged [simp]:
  "Keys (logged env ctx request evs) = (''request'', KString (toString env request)) # Keys ctx"
  by (simp add: logged_def)

lemma execute_events: "list_all is_exec_event (fst (execute env request handle))"
  by (cases request) (simp_all split: sum.splits option.splits)

lemma exec_events_no_response:
  "list_all is_exec_event evs \<Longrightarrow> filter is_response evs = []"
  by (induction evs) (auto elim: is_exec_event.elims)

lemma exec_events_no_Cache_Set:
  "list_all is_exec_event evs \<Longrightarrow> filter is_Cache_Set evs = []"
  by (induction evs) (auto elim: is_exec_event.elims)

lemma lookup_events_no_response [simp]: "filter is_response (lookup_events e k) = []"
  by (simp add: lookup_events_def)

lemma lookup_events_no_Cache_Set [simp]: "filter is_Cache_Set (lookup_events e k) = []"
  by (simp add: lookup_events_def)

lemma lookup_events_no_handle [simp]: "filter is_handle_event (lookup_events e k) = []"
  by (simp add: lookup_events_def)

text \<open>
  Claim C3. When a data request reaches execution (the connection and the fingerprint
  were obtained, the request was not served from the cache, the handle opened) and its
  variant's \<open>execute\<close> succeeds with \<open>(data, metadata)\<close>, the cache holds the entry
  built from exactly these at the request's fingerprint afterwards, whatever it held
  before; the one response written is the computed metadata and data; and the cache is
  set before the response is written, with no earlier response or cache write.
\<close>

theorem C3_success_is_cached_and_returned:
  assumes conn: "MakeVdsConnection e (Vds request) (Sas request) = Inr conn"
    and key: "hash env request = Inr cacheKey"
    and nohit: "\<not> (Cache e cacheKey \<noteq> None \<and> IsAuthorizedToRead env conn)"
    and opn: "NewDSHandle env conn = Inr handle"
    and exec: "execute env request handle = (evs, Inr (data, metadata'))"
  shows "Cache (fst (makeDataRequest env e ctx request)) cacheKey
           = Some (NewCacheEntry data metadata')
       \<and> filter is_response (new_events ctx (snd (makeDataRequest env e ctx request)))
           = [Ev_writeResponse metadata' data]
       \<and> (\<exists>pre. new_events ctx (snd (makeDataRequest env e ctx request))
             = pre @ [Ev_Cache_Set cacheKey (NewCacheEntry data metadata'),
                      Ev_writeResponse metadata' data, Ev_Close]
           \<and> filter is_response pre = [] \<and> filter is_Cache_Set pre = [])"
proof -
  let ?pre = "lookup_events e cacheKey @ [Ev_NewDSHandle True] @ evs"
  have evs: "list_all is_exec_event evs"
    using execute_events [of env request handle] exec by simp
  have run: "makeDataRequest env e ctx request =
           (e\<lparr>Cache := (Cache e)(cacheKey \<mapsto> NewCacheEntry data metadata')\<rparr>,
            logged env ctx request
              (?pre @ [Ev_Cache_Set cacheKey (NewCacheEntry data metadata'),
                  Ev_writeResponse metadata' data, Ev_Close]))"
    using run_success [OF conn key nohit opn exec] by simp
  have pre: "filter is_response ?pre = [] \<and> filter is_Cache_Set ?pre = []"
    using evs by (simp add: exec_events_no_response exec_events_no_Cache_Set)
  show ?thesis
    unfolding run using pre by simp
qed

text \<open>
  Claim C4. A data request that fails at any of its four stages (creating the connection,
  fingerprinting, opening the dataset handle, executing the variant) leaves the endpoint,
  and with it the cache, exactly as it was: no cache write happens, and the one response
  is the abort with the failing stage's error.
\<close>

theorem C4_failure_is_never_cached:
  assumes "fails_at env e request stage err"
  shows "fst (makeDataRequest env e ctx request) = e
       \<and> filter is_Cache_Set (new_events ctx (snd (makeDataRequest env e ctx request))) = []
       \<and> filter is_response (new_events ctx (snd (makeDataRequest env e ctx request)))
           = [Ev_AbortWithError (httpStatusCode err) err]"
proof (cases stage)
  case ConnectionCreation
  then show ?thesis
    using assms by (simp add: run_connection_failed)
next
  case Fingerprinting
  then obtain conn where "MakeVdsConnection e (Vds request) (Sas request) = Inr conn"
    and "hash env request = Inl err"
    using assms by (auto split: sum.splits)
  then show ?thesis
    by (simp add: run_hash_failed)
next
  case OpeningHandle
  then obtain conn cacheKey where
    "MakeVdsConnection e (Vds request) (Sas request) = Inr conn"
    "hash env request = Inr cacheKey"
    "\<not> (Cache e cacheKey \<noteq> None \<and> IsAuthorizedToRead env conn)"
    "NewDSHandle env conn = Inl err"
    using assms by (auto split: sum.splits)
  then show ?thesis
    by (simp add: run_open_failed)
next
  case Execution
  then obtain conn cacheKey handle where c:
    "MakeVdsConnection e (Vds request) (Sas request) = Inr conn"
    "hash env request = Inr cacheKey"
    "\<not> (Cache e cacheKey \<noteq> None \<and> IsAuthorizedToRead env conn)"
    "NewDSHandle env conn = Inr handle"
    "snd (execute env request handle) = Inl err"
    using assms by (auto split: sum.splits)
  obtain evs where exec: "execute env request handle = (evs, Inl err)"
    using c(5) by (cases "execute env request handle") simp
  have evs: "list_all is_exec_event evs"
    using execute_events [of env request handle] exec by simp
  show ?thesis
    using evs by (simp add: run_execute_failed [OF c(1-4) exec]
        exec_events_no_response exec_events_no_Cache_Set)
qed


lemmas metadata_defs =
  prepareRequestLogging_def emit_def ctx_Set_def new_events_def Let_def

text \<open>
  Claim C10. The metadata handler neither reads nor writes the cache: it returns the
  endpoint unchanged, none of its events is a cache lookup or a cache write, its effect on
  the context is the same whatever the cache holds, and a successful response carries the
  buffer that \<open>GetMetadata\<close> returned on the freshly opened handle.
\<close>

theorem C10_metadata_leaves_cache_alone:
  "fst (metadata env e ctx request) = e
   \<and> filter is_cache_event (new_events ctx (snd (metadata env e ctx request))) = []
   \<and> snd (metadata env (e\<lparr>Cache := c\<rparr>) ctx request) = snd (metadata env e ctx request)
   \<and> (\<forall>vds sas conn handle buffer.
         request = MetadataRequest vds sas \<longrightarrow> MakeVdsConnection e vds sas = Inr conn \<longrightarrow>
         NewDSHandle env conn = Inr handle \<longrightarrow> GetMetadata env handle = Inr buffer \<longrightarrow>
         filter is_response (new_events ctx (snd (metadata env e ctx request)))
           = [Ev_Data StatusOK ''application/json'' buffer])"
  by (cases request) (simp add: metadata_defs split: sum.splits)


lemma Contains_self_prefix: "Contains (p @ ys) p"
proof (cases "p @ ys")
  case Nil
  then show ?thesis by simp
next
  case (Cons c cs)
  have "take (length p) (p @ ys) = p"
    by simp
  then have "take (length p) (c # cs) = p"
    by (simp only: Cons)
  then show ?thesis
    by (simp only: Cons Contains.simps) simp
qed

lemma Contains_infix: "Contains (xs @ p @ ys) p"
  by (induction xs) (auto simp add: Contains_self_prefix)

lemma validateVerticalWindow_numbers:
  "(validateVerticalWindow fmt_f (Number a) (Number b) (Number s) \<noteq> None
      \<longleftrightarrow> (a < 0 \<or> 250 \<le> a \<or> b < 0 \<or> 250 \<le> b \<or> s < 0))
   \<and> (a < 0 \<or> 250 \<le> a \<longrightarrow>
        (\<exists>m. validateVerticalWindow fmt_f (Number a) (Number b) (Number s)
                = Some (InvalidArgument m)
           \<and> Contains m '''above' out of range'' \<and> Contains m ''[0, 250]''))
   \<and> (0 \<le> a \<and> a < 250 \<and> (b < 0 \<or> 250 \<le> b) \<longrightarrow>
        (\<exists>m. validateVerticalWindow fmt_f (Number a) (Number b) (Number s)
                = Some (InvalidArgument m)
           \<and> Contains m '''below' out of range'' \<and> Contains m ''[0, 250]''))
   \<and> (0 \<le> a \<and> a < 250 \<and> 0 \<le> b \<and> b < 250 \<and> s < 0 \<longrightarrow>
        (\<exists>m. validateVerticalWindow fmt_f (Number a) (Number b) (Number s)
                = Some (InvalidArgument m)
           \<and> Contains m '''stepsize' out of range'' \<and> Contains m ''bigger than 0''))"
proof -
  have above: "Contains ('''above' out of range! Must be within [0, 250], was '' @ t)
                 '''above' out of range''
             \<and> Contains ('''above' out of range! Must be within [0, 250], was '' @ t)
                 ''[0, 250]''" for t
    using Contains_infix [of "[]" "'''above' out of range''"
            "''! Must be within [0, 250], was '' @ t"]
          Contains_infix [of "'''above' out of range! Must be within ''" "''[0, 250]''"
            "'', was '' @ t"]
    by simp
  have below: "Contains ('''below' out of range! Must be within [0, 250], was '' @ t)
                 '''below' out of range''
             \<and> Contains ('''below' out of range! Must be within [0, 250], was '' @ t)
                 ''[0, 250]''" for t
    using Contains_infix [of "[]" "'''below' out of range''"
            "''! Must be within [0, 250], was '' @ t"]
          Contains_infix [of "'''below' out of range! Must be within ''" "''[0, 250]''"
            "'', was '' @ t"]
    by simp
  have step: "Contains ('''stepsize' out of range! Must be bigger than 0, was '' @ t)
                 '''stepsize' out of range''
             \<and> Contains ('''stepsize' out of range! Must be bigger than 0, was '' @ t)
                 ''bigger than 0''" for t
    using Contains_infix [of "[]" "'''stepsize' out of range''"
            "''! Must be bigger than 0, was '' @ t"]
          Contains_infix [of "'''stepsize' out of range! Must be ''" "''bigger than 0''"
            "'', was '' @ t"]
    by simp
  show ?thesis
    using above [of "fmt_f (Number a)"] below [of "fmt_f (Number b)"]
      step [of "fmt_f (Number s)"]
    by (simp add: validateVerticalWindow_def)
qed

lemma execute_stops_at_rejected_window:
  "validateVerticalWindow (Sprintf_f env) a b s = Some err \<Longrightarrow>
     execute env (AttributeAlongSurfaceRequest vds sas surface a b s attrs interp) handle
       = ([Ev_Validate ''validateVerticalWindow''], Inl err)"
  by simp

text \<open>
  Claim C5. The claim asks for an InvalidArgument exactly when \<open>above\<close> is outside
  \<open>[0, 250)\<close>, \<open>below\<close> is outside \<open>[0, 250)\<close> or \<open>stepsize\<close> is negative, and the
  messages of \<open>validateVerticalWindow\<close> say the same (\<open>Must be within\<close>). On numbers
  the source does so. NaN is not within the interval, yet each comparison the source
  makes is false on it: a window whose \<open>above\<close> is NaN passes the validation, and the
  request goes on to the interpolation token and to both engine queries.
\<close>

theorem C5_NaN_passes_window_validation:
  "\<not> in_window NaN
   \<and> validateVerticalWindow (Sprintf_f example_env) NaN (Number 1) (Number 1) = None
   \<and> validateVerticalWindow (Sprintf_f example_env) (Number (- 1)) (Number 1) (Number 1)
       = Some (InvalidArgument
                 '''above' out of range! Must be within [0, 250], was -1.000000'')
   \<and> execute example_env
        (AttributeAlongSurfaceRequest ''vds'' ''good'' (RegularSurface [[Number 20]])
           NaN (Number 1) (Number 1) [''samplevalue''] ''nearest'') ()
       = ([Ev_Validate ''validateVerticalWindow'', Ev_Validate ''GetInterpolationMethod'',
           Ev_Engine ''GetAttributeMetadata'', Ev_Engine ''GetAttributesAlongSurface''],
          Inr ([''attr''], ''meta''))"
  by (simp add: in_window_def validateVerticalWindow_def example_env_def)

text \<open>
  Claim C6. A GET request without a \<open>query\<close> parameter fails with the InvalidArgument
  that asks for the parameter, whatever the decoders would do; a \<open>query\<close> parameter
  that does not decode fails with a different InvalidArgument, the one that carries the
  decoder's message.
\<close>

theorem C6_missing_query_parameter:
  "(GetQuery ctx ''query'' = None \<longrightarrow>
      parseGetRequest n ctx
        = Inl (InvalidArgument
                 ''GET request to specified endpoint requires a 'query' parameter''))
   \<and> (\<forall>query msg. GetQuery ctx ''query'' = Some query \<longrightarrow> Unmarshal n query = Inl msg \<longrightarrow>
         parseGetRequest n ctx
           = Inl (InvalidArgument
                    (''Please ensure that the supplied query is valid ''
                     @ ''and conforms to the expected swagger Request specification: ''
                     @ msg))
         \<and> parseGetRequest n ctx
             \<noteq> Inl (InvalidArgument
                      ''GET request to specified endpoint requires a 'query' parameter''))"
  by (simp add: parseGetRequest_def)




lemma ToLower_examples:
  "ToLower env ''unknown'' = ''unknown''" "ToLower env ''Inline'' = ''inline''"
  "ToLower env ''INLINE'' = ''inline''" "ToLower env ''inline'' = ''inline''"
  "ToLower env ''i'' = ''i''"
proof -
  have ascii: "isASCII ''unknown''" "isASCII ''Inline''" "isASCII ''INLINE''"
    "isASCII ''inline''" "isASCII ''i''"
    by code_simp+
  have lower: "map ToLower_char ''unknown'' = ''unknown''"
    "map ToLower_char ''Inline'' = ''inline''" "map ToLower_char ''INLINE'' = ''inline''"
    "map ToLower_char ''inline'' = ''inline''" "map ToLower_char ''i'' = ''i''"
    by code_simp+
  show "ToLower env ''unknown'' = ''unknown''" "ToLower env ''Inline'' = ''inline''"
    "ToLower env ''INLINE'' = ''inline''" "ToLower env ''inline'' = ''inline''"
    "ToLower env ''i'' = ''i''"
    unfolding ToLower_def by (simp_all only: ascii lower if_True)
qed



text \<open>
  Claim C9. Replacing the SAS token of a data request does not change its fingerprint:
  two requests that agree once their tokens are blanked have the same \<open>hash\<close>.
\<close>

theorem C9_fingerprint_ignores_credentials:
  "hash env (with_Sas s request) = hash env request
   \<and> (\<forall>ra rb. with_Sas [] ra = with_Sas [] rb \<longrightarrow> hash env ra = hash env rb)"
  by (cases request) (simp_all add: hash_def)

lemma split_at_open_None:
  "filter is_NewDSHandle tr = [] \<Longrightarrow> split_at_open tr = None"
proof (induction tr)
  case Nil
  then show ?case by simp
next
  case (Cons ev tr)
  then show ?case by (cases ev) (simp_all split: if_splits)
qed

lemma split_at_open_append:
  "filter is_NewDSHandle pre = [] \<Longrightarrow>
     split_at_open (pre @ Ev_NewDSHandle ok # post) = Some (pre, ok, post)"
proof (induction pre)
  case Nil
  then show ?case by simp
next
  case (Cons ev pre)
  then show ?case by (cases ev) (simp_all split: if_splits)
qed

lemma lookup_events_prelude [simp]:
  "data_prelude (lookup_events e k)" "filter is_NewDSHandle (lookup_events e k) = []"
  "filter is_scoped_event (lookup_events e k) = []"
  by (simp_all add: data_prelude_def lookup_events_def)

lemma exec_events_no_open_or_close:
  "list_all is_exec_event evs \<Longrightarrow> filter is_open_or_close evs = []"
  by (induction evs) (auto elim: is_exec_event.elims)

lemma opened_trace_scoped:
  assumes "prelude pre" and "filter is_NewDSHandle pre = []"
    and "filter is_open_or_close body = []"
  shows "handle_scoped prelude (pre @ [Ev_NewDSHandle True] @ body @ [Ev_Close])"
  using assms by (simp add: handle_scoped_def split_at_open_append butlast_append)

lemma refused_trace_scoped:
  assumes "prelude pre" and "filter is_NewDSHandle pre = []"
    and "filter is_scoped_event post = []"
  shows "handle_scoped prelude (pre @ [Ev_NewDSHandle False] @ post)"
  using assms by (simp add: handle_scoped_def split_at_open_append)

lemma unopened_trace_scoped:
  assumes "filter is_scoped_event tr = []" and "filter is_NewDSHandle tr = []"
  shows "handle_scoped prelude tr"
  using assms by (simp add: handle_scoped_def split_at_open_None)

lemma makeDataRequest_handle_scoped:
  "handle_scoped data_prelude (new_events ctx (snd (makeDataRequest env e ctx request)))"
proof (cases "MakeVdsConnection e (Vds request) (Sas request)")
  case (Inl err)
  then show ?thesis
    by (simp add: run_connection_failed unopened_trace_scoped)
next
  case conn: (Inr conn)
  show ?thesis
  proof (cases "hash env request")
    case (Inl err)
    then show ?thesis
      by (simp add: run_hash_failed [OF conn] unopened_trace_scoped)
  next
    case key: (Inr cacheKey)
    show ?thesis
    proof (cases "Cache e cacheKey \<noteq> None \<and> IsAuthorizedToRead env conn")
      case True
      then obtain entry where "Cache e cacheKey = Some entry" and "IsAuthorizedToRead env conn"
        by auto
      then show ?thesis
        by (simp add: run_cache_hit [OF conn key] new_events_def unopened_trace_scoped)
    next
      case nohit: False
      show ?thesis
      proof (cases "NewDSHandle env conn")
        case (Inl err)
        have "handle_scoped data_prelude
                (lookup_events e cacheKey @ [Ev_NewDSHandle False]
                 @ [Ev_AbortWithError (httpStatusCode err) err])"
          by (rule refused_trace_scoped) simp_all
        then show ?thesis
          by (simp add: run_open_failed [OF conn key nohit Inl])
      next
        case opn: (Inr handle)
        obtain evs res where exec: "execute env request handle = (evs, res)"
          by (cases "execute env request handle")
        have evs: "list_all is_exec_event evs"
          using execute_events [of env request handle] exec by simp
        show ?thesis
        proof (cases res)
          case (Inl err)
          have "handle_scoped data_prelude
                  (lookup_events e cacheKey @ [Ev_NewDSHandle True]
                   @ (evs @ [Ev_AbortWithError (httpStatusCode err) err]) @ [Ev_Close])"
            by (rule opened_trace_scoped)
              (simp_all add: exec_events_no_open_or_close [OF evs])
          then show ?thesis
            by (simp add: run_execute_failed [OF conn key nohit opn exec [unfolded Inl]])
        next
          case (Inr r)
          obtain data metadata' where r: "r = (data, metadata')"
            by (cases r)
          have "handle_scoped data_prelude
                  (lookup_events e cacheKey @ [Ev_NewDSHandle True]
                   @ (evs @ [Ev_Cache_Set cacheKey (NewCacheEntry data metadata'),
                             Ev_writeResponse metadata' data]) @ [Ev_Close])"
            by (rule opened_trace_scoped)
              (simp_all add: exec_events_no_open_or_close [OF evs])
          then show ?thesis
            by (simp add: run_success [OF conn key nohit opn exec [unfolded Inr r]])
        qed
      qed
    qed
  qed
qed

lemma metadata_handle_scoped:
  "handle_scoped metadata_prelude (new_events ctx (snd (metadata env e ctx request)))"
  by (cases request)
    (simp add: metadata_defs handle_scoped_def metadata_prelude_def split: sum.splits)

lemma aborted_parse_scoped:
  "new_events ctx (emit ev ctx) = [ev]"
  "handle_scoped prelude [Ev_AbortWithError status err]"
  by (simp_all add: emit_def new_events_def handle_scoped_def)

lemma data_handlers_scoped:
  assumes "(parse, handler) \<in> set data_handlers"
  shows "handle_scoped data_prelude (new_events ctx (snd (handler n env e ctx)))"
    and "parse n ctx = Inl err \<Longrightarrow>
           new_events ctx (snd (handler n env e ctx))
             = [Ev_AbortWithError (httpStatusCode err) err]"
  using assms
  by (auto simp add: data_handlers_def SliceGet_def SlicePost_def FenceGet_def FencePost_def
      AttributesAlongSurfacePost_def AttributesBetweenSurfacesPost_def
      aborted_parse_scoped makeDataRequest_handle_scoped split: sum.splits)

lemma metadata_handlers_scoped:
  assumes "(parse, handler) \<in> set metadata_handlers"
  shows "handle_scoped metadata_prelude (new_events ctx (snd (handler n env e ctx)))"
    and "parse n ctx = Inl err \<Longrightarrow>
           new_events ctx (snd (handler n env e ctx))
             = [Ev_AbortWithError (httpStatusCode err) err]"
  using assms
  by (auto simp add: metadata_handlers_def MetadataGet_def MetadataPost_def
      aborted_parse_scoped metadata_handle_scoped split: sum.splits)

lemma execute_validates_first:
  "\<exists>v evs. fst (execute env request handle) = Ev_Validate v # evs"
  by (cases request) (simp_all split: sum.splits option.splits)

text \<open>
  Claim C7, as the handlers implement it. In the data handler a handle is opened at most
  once, and only after the connection has been made, the request fingerprinted and the
  cache consulted; in the metadata handler only after the connection has been made; in
  each routed handler, moreover, only after the request has been parsed: a parse error
  ends the handler with the abort alone. The validators and engine queries of \<open>execute\<close>
  run only between the opening and the closing of the handle, and \<open>execute\<close> always
  begins with a validator, so variant-level validation runs while the handle is open. A
  handle that was opened is closed exactly once, by the last effect of the handler, on
  success, on a validation failure and on an engine failure alike; when opening fails,
  nothing is closed and neither a validator nor an engine query runs.
\<close>

theorem C7_handle_scoped_to_request:
  "handle_scoped data_prelude (new_events ctx (snd (makeDataRequest env e ctx request)))
   \<and> handle_scoped metadata_prelude (new_events ctx (snd (metadata env e ctx mrequest)))
   \<and> (\<forall>(parse, handler) \<in> set data_handlers.
         handle_scoped data_prelude (new_events ctx (snd (handler n env e ctx)))
         \<and> (\<forall>err. parse n ctx = Inl err \<longrightarrow>
               new_events ctx (snd (handler n env e ctx))
                 = [Ev_AbortWithError (httpStatusCode err) err]))
   \<and> (\<forall>(parse, handler) \<in> set metadata_handlers.
         handle_scoped metadata_prelude (new_events ctx (snd (handler nm env e ctx)))
         \<and> (\<forall>err. parse nm ctx = Inl err \<longrightarrow>
               new_events ctx (snd (handler nm env e ctx))
                 = [Ev_AbortWithError (httpStatusCode err) err]))
   \<and> (\<exists>v evs. fst (execute env request handle) = Ev_Validate v # evs)"
proof -
  have data: "\<forall>(parse, handler) \<in> set data_handlers.
         handle_scoped data_prelude (new_events ctx (snd (handler n env e ctx)))
         \<and> (\<forall>err. parse n ctx = Inl err \<longrightarrow>
               new_events ctx (snd (handler n env e ctx))
                 = [Ev_AbortWithError (httpStatusCode err) err])"
    using data_handlers_scoped [where n = n and env = env and e = e and ctx = ctx]
    by blast
  have meta: "\<forall>(parse, handler) \<in> set metadata_handlers.
         handle_scoped metadata_prelude (new_events ctx (snd (handler nm env e ctx)))
         \<and> (\<forall>err. parse nm ctx = Inl err \<longrightarrow>
               new_events ctx (snd (handler nm env e ctx))
                 = [Ev_AbortWithError (httpStatusCode err) err])"
    using metadata_handlers_scoped [where n = nm and env = env and e = e and ctx = ctx]
    by blast
  show ?thesis
    using data meta
    by (simp only: makeDataRequest_handle_scoped metadata_handle_scoped
        execute_validates_first simp_thms)
qed

lemmas example_defs =
  example_env_def example_endpoint_def example_ctx_def hash_def GetAxis_def

text \<open>
  Claim C7 as stated asks that a request whose variant-level validation fails never holds
  an open handle before that validation runs. A slice request with the direction
  \<open>unknown\<close> on a dataset that opens shows otherwise: the handle is opened, then
  \<open>GetAxis\<close> rejects the direction, then the handle is closed.
\<close>

theorem C7_handle_open_during_validation:
  "Trace (snd (makeDataRequest example_env (example_endpoint Map.empty) example_ctx
                 (SliceRequest ''vds'' ''good'' ''unknown'' 1 [])))
     = [Ev_MakeVdsConnection, Ev_hash, Ev_Cache_Get ''vds'', Ev_NewDSHandle True,
        Ev_Validate ''GetAxis'',
        Ev_AbortWithError 400
          (InvalidArgument (''invalid direction '' @ [CHR 0x27] @ ''unknown'' @ [CHR 0x27]
             @ '', valid options are: i, inline, crossline'')),
        Ev_Close]
   \<and> \<not> validated_before_open False
         (Trace (snd (makeDataRequest example_env (example_endpoint Map.empty) example_ctx
                        (SliceRequest ''vds'' ''good'' ''unknown'' 1 []))))"
  by (simp add: handler_defs example_defs ToLower_examples)

theorem C7_handle_scoped_to_request_witness:
  "handle_scoped data_prelude
     (new_events example_ctx
        (snd (makeDataRequest example_env (example_endpoint Map.empty) example_ctx
                (SliceRequest ''vds'' ''good'' ''unknown'' 1 []))))
   \<and> new_events example_ctx
        (snd (metadata example_env (example_endpoint Map.empty) example_ctx
                (MetadataRequest ''vds'' ''revoked'')))
       = [Ev_MakeVdsConnection, Ev_NewDSHandle False,
          Ev_AbortWithError 500 (InternalError ''Could not open VDS'')]
   \<and> handle_scoped metadata_prelude
        [Ev_MakeVdsConnection, Ev_NewDSHandle False,
         Ev_AbortWithError 500 (InternalError ''Could not open VDS'')]
   \<and> (parseGetRequest, SliceGet) \<in> set data_handlers
   \<and> new_events example_ctx
        (snd (SliceGet example_slice_binder example_env (example_endpoint Map.empty)
                example_ctx))
       = [Ev_AbortWithError 400
            (InvalidArgument
               ''GET request to specified endpoint requires a 'query' parameter'')]
   \<and> handle_scoped data_prelude
        (new_events example_ctx
           (snd (SlicePost example_slice_binder example_env (example_endpoint Map.empty)
                   example_ctx)))
   \<and> handle_scoped metadata_prelude
        (new_events example_ctx
           (snd (MetadataPost example_metadata_binder example_env
                   (example_endpoint Map.empty) example_ctx)))
   \<and> \<not> handle_scoped data_prelude
         [Ev_NewDSHandle True, Ev_Validate ''GetAxis'', Ev_Close]
   \<and> \<not> handle_scoped data_prelude
         [Ev_MakeVdsConnection, Ev_hash, Ev_Cache_Get ''vds'', Ev_NewDSHandle True, Ev_Close,
          Ev_NewDSHandle True, Ev_Close]"
  using C7_handle_scoped_to_request
      [where ctx = example_ctx and env = example_env and e = "example_endpoint Map.empty"
         and request = "SliceRequest ''vds'' ''good'' ''unknown'' 1 []"
         and mrequest = "MetadataRequest ''vds'' ''revoked''" and n = example_slice_binder
         and nm = example_metadata_binder and handle = "()"]
  by (simp add: metadata_defs example_defs parseGetRequest_def GetQuery_def
      data_handlers_def metadata_handlers_def handle_scoped_def data_prelude_def
      metadata_prelude_def)



theorem C2_status_of_aborted_error_witness:
  "httpStatusCode (InvalidArgument ''invalid direction'') = 400
   \<and> httpStatusCode (InternalError ''Could not open VDS'') = 500
   \<and> httpStatusCode (OtherError ''EOF'') = 500
   \<and> abortOnError example_ctx (Some (OtherError ''EOF''))
       = (example_ctx\<lparr>Trace := [Ev_AbortWithError 500 (OtherError ''EOF'')]\<rparr>, True)"
  using C2_status_of_aborted_error [of "OtherError ''EOF''" "''Could not open VDS''" example_ctx]
  by (simp add: example_ctx_def)

theorem C3_success_is_cached_and_returned_witness:
  "Cache (example_endpoint [''vds'' \<mapsto> NewCacheEntry [''old''] ''cached'']) ''vds''
     = Some (NewCacheEntry [''old''] ''cached'')
   \<and> Cache (fst (makeDataRequest (example_env\<lparr>IsAuthorizedToRead := (\<lambda>conn. False)\<rparr>)
                    (example_endpoint [''vds'' \<mapsto> NewCacheEntry [''old''] ''cached''])
                    example_ctx (SliceRequest ''vds'' ''good'' ''Inline'' 1 []))) ''vds''
       = Some (NewCacheEntry [''slice''] ''meta'')
   \<and> filter is_response
        (new_events example_ctx
           (snd (makeDataRequest (example_env\<lparr>IsAuthorizedToRead := (\<lambda>conn. False)\<rparr>)
                   (example_endpoint [''vds'' \<mapsto> NewCacheEntry [''old''] ''cached''])
                   example_ctx (SliceRequest ''vds'' ''good'' ''Inline'' 1 []))))
       = [Ev_writeResponse ''meta'' [''slice'']]"
  using C3_success_is_cached_and_returned
      [where env = "example_env\<lparr>IsAuthorizedToRead := (\<lambda>conn. False)\<rparr>"
         and e = "example_endpoint [''vds'' \<mapsto> NewCacheEntry [''old''] ''cached'']"
         and request = "SliceRequest ''vds'' ''good'' ''Inline'' 1 []" and conn = "''good''"
         and cacheKey = "''vds''" and handle = "()"
         and evs = "[Ev_Validate ''GetAxis'', Ev_Engine ''GetSliceMetadata'',
                     Ev_Engine ''GetSlice'']"
         and data = "[''slice'']" and metadata' = "''meta''" and ctx = example_ctx]
  by (simp add: example_defs ToLower_examples)

theorem C4_failure_is_never_cached_witness:
  "fails_at example_env (example_endpoint [''other'' \<mapsto> NewCacheEntry [''old''] ''cached''])
     (SliceRequest ''vds'' ''good'' ''unknown'' 1 []) Execution
     (InvalidArgument (''invalid direction '' @ [CHR 0x27] @ ''unknown'' @ [CHR 0x27]
        @ '', valid options are: i, inline, crossline''))
   \<and> fst (makeDataRequest example_env
             (example_endpoint [''other'' \<mapsto> NewCacheEntry [''old''] ''cached''])
             example_ctx (SliceRequest ''vds'' ''good'' ''unknown'' 1 []))
       = example_endpoint [''other'' \<mapsto> NewCacheEntry [''old''] ''cached'']
   \<and> filter is_response
        (new_events example_ctx
           (snd (makeDataRequest example_env
                   (example_endpoint [''other'' \<mapsto> NewCacheEntry [''old''] ''cached''])
                   example_ctx (SliceRequest ''vds'' ''good'' ''unknown'' 1 []))))
       = [Ev_AbortWithError 400
            (InvalidArgument (''invalid direction '' @ [CHR 0x27] @ ''unknown'' @ [CHR 0x27]
               @ '', valid options are: i, inline, crossline''))]"
  using C4_failure_is_never_cached
      [where env = example_env
         and e = "example_endpoint [''other'' \<mapsto> NewCacheEntry [''old''] ''cached'']"
         and request = "SliceRequest ''vds'' ''good'' ''unknown'' 1 []" and stage = Execution
         and err = "InvalidArgument (''invalid direction '' @ [CHR 0x27] @ ''unknown''
                      @ [CHR 0x27] @ '', valid options are: i, inline, crossline'')"
         and ctx = example_ctx]
  by (simp add: example_defs ToLower_examples)

theorem C6_missing_query_parameter_witness:
  "parseGetRequest example_normalizable example_ctx
     = Inl (InvalidArgument ''GET request to specified endpoint requires a 'query' parameter'')
   \<and> parseGetRequest example_normalizable
        (example_ctx\<lparr>Query := [(''query'', ''help I am a duck'')]\<rparr>)
       = Inl (InvalidArgument
                (''Please ensure that the supplied query is valid ''
                 @ ''and conforms to the expected swagger Request specification: ''
                 @ ''invalid character''))
   \<and> parseGetRequest example_normalizable
        (example_ctx\<lparr>Query := [(''query'', ''help I am a duck'')]\<rparr>)
       \<noteq> parseGetRequest example_normalizable example_ctx"
  using C6_missing_query_parameter [of example_ctx example_normalizable]
    C6_missing_query_parameter
      [of "example_ctx\<lparr>Query := [(''query'', ''help I am a duck'')]\<rparr>" example_normalizable]
  by (simp add: example_ctx_def example_normalizable_def GetQuery_def)

theorem C9_fingerprint_ignores_credentials_witness:
  "hash example_env (SliceRequest ''vds'' ''token-1'' ''i'' 0 [])
     = hash example_env (SliceRequest ''vds'' ''token-2'' ''i'' 0 [])
   \<and> hash example_env (SliceRequest ''vds'' ''token-1'' ''i'' 0 []) = Inr ''vds''"
  using C9_fingerprint_ignores_credentials
      [where env = example_env and s = "''token-1''"
         and request = "SliceRequest ''vds'' ''token-2'' ''i'' 0 []"]
  by (simp add: example_defs)

theorem C10_metadata_leaves_cache_alone_witness:
  "fst (metadata example_env
          (example_endpoint [''vds'' \<mapsto> NewCacheEntry [''old''] ''cached'']) example_ctx
          (MetadataRequest ''vds'' ''good''))
     = example_endpoint [''vds'' \<mapsto> NewCacheEntry [''old''] ''cached'']
   \<and> filter is_cache_event
        (new_events example_ctx
           (snd (metadata example_env
                   (example_endpoint [''vds'' \<mapsto> NewCacheEntry [''old''] ''cached''])
                   example_ctx (MetadataRequest ''vds'' ''good'')))) = []
   \<and> filter is_response
        (new_events example_ctx
           (snd (metadata example_env
                   (example_endpoint [''vds'' \<mapsto> NewCacheEntry [''old''] ''cached''])
                   example_ctx (MetadataRequest ''vds'' ''good''))))
       = [Ev_Data 200 ''application/json'' ''{}'']"
  using C10_metadata_leaves_cache_alone
      [where env = example_env
         and e = "example_endpoint [''vds'' \<mapsto> NewCacheEntry [''old''] ''cached'']"
         and ctx = example_ctx and request = "MetadataRequest ''vds'' ''good''"]
  by (simp add: example_defs)

end
